theory Spec2Isabelle
  imports Main "HOL-Library.Word"
begin

section \<open>The OpenGL vertex manager: streaming buffers and draw submission\<close>

text \<open>
  A shallow embedding of \<^verbatim>\<open>Source/Core/VideoBackends/OGL/VertexManager.cpp\<close>.
  The file's statics and the globals it reads are fields of one state record; every call it
  makes into OpenGL or into another module is appended, in program order, to a trace of
  calls held in the same record. A \<^verbatim>\<open>u32\<close> is a 32-bit word, so its arithmetic wraps.
  A \<^verbatim>\<open>size_t\<close> (buffer offsets, sizes, host addresses) is a natural number: the
  file only divides such values, adds them to pointers, or narrows them with a cast, and the
  cast is written out.
\<close>

type_synonym u32 = "32 word"
type_synonym u16 = "16 word"

subsection \<open>Enumerations\<close>

datatype DSTALPHA_MODE = DSTALPHA_NONE | DSTALPHA_ALPHA_PASS | DSTALPHA_DUAL_SOURCE_BLEND

datatype PrimitiveType = PRIMITIVE_POINTS | PRIMITIVE_LINES | PRIMITIVE_TRIANGLES

datatype GLmode = GL_POINTS | GL_LINES | GL_TRIANGLES | GL_TRIANGLE_STRIP

datatype GLtype = GL_UNSIGNED_SHORT

datatype GLcap = GL_BLEND

datatype stream = VertexStream | IndexStream

datatype failure = OutOfSpace | DivisionByZero | NullVertexFormat

subsection \<open>The trace of calls leaving the file\<close>

datatype call =
    glBindVertexArray u32
  | Map_call stream nat nat
  | Unmap_call stream u32
  | Start_call nat
  | SetShader DSTALPHA_MODE u32
  | UploadConstants
  | SetupVertexPointers
  | glDrawRangeElementsBaseVertex GLmode u32 u32 u32 GLtype nat int
  | glDrawRangeElements GLmode u32 u32 u32 GLtype nat
  | glColorMask bool bool bool bool
  | glDisable GLcap
  | glEnable GLcap
  | Renderer_SetColorMask
  | SaveShaderSources int
  | SaveScreenshot int
  | ClearEFBCache

subsection \<open>Ring stream buffer\<close>

text \<open>
  Modelled from the spec: the class \<^verbatim>\<open>StreamBuffer\<close> (StreamBuffer.h and
  StreamBuffer.cpp are not among the sources). A buffer has a fixed total capacity, a
  current write cursor, and the address of its backing storage. The fence against the
  graphics device is outside this model.
\<close>

record StreamBuffer =
  m_size :: nat
  m_iterator :: nat
  m_pointer :: nat

text \<open>
  Modelled from the spec: \<^verbatim>\<open>StreamBuffer::Create\<close>, missing with the class. A buffer is
  created once, with a fixed capacity and the cursor at offset 0.
\<close>

definition StreamBuffer_Create :: "nat \<Rightarrow> nat \<Rightarrow> StreamBuffer" where
  "StreamBuffer_Create storage capacity =
     \<lparr>m_size = capacity, m_iterator = 0, m_pointer = storage\<rparr>"

text \<open>
  Modelled from the spec: the alignment done by \<^verbatim>\<open>map\<close>, missing with the class. The
  cursor moves up to the next multiple of the stride; no stride, no alignment.
\<close>

definition Align :: "nat \<Rightarrow> nat \<Rightarrow> nat" where
  "Align cursor alignmentStride =
     (if alignmentStride = 0 then cursor
      else ((cursor + alignmentStride - 1) div alignmentStride) * alignmentStride)"

text \<open>
  Modelled from the spec: \<^verbatim>\<open>StreamBuffer::Map\<close>, missing with the class. It reserves
  \<open>maxSize\<close> bytes at the cursor aligned to the stride, wraps to offset 0 when the space
  left before the end of the buffer is too small, and fails with \<open>OutOfSpace\<close> when
  \<open>maxSize\<close> exceeds the total capacity. It returns the writable pointer and the base
  offset of the mapping.
\<close>

definition StreamBuffer_Map ::
  "StreamBuffer \<Rightarrow> nat \<Rightarrow> nat \<Rightarrow> failure + (StreamBuffer \<times> nat \<times> nat)" where
  "StreamBuffer_Map sb maxSize alignmentStride =
     (if m_size sb < maxSize then Inl OutOfSpace
      else
        let aligned = Align (m_iterator sb) alignmentStride;
            base = (if m_size sb < aligned + maxSize then 0 else aligned)
        in Inr (sb\<lparr>m_iterator := base\<rparr>, m_pointer sb + base, base))"

text \<open>
  Modelled from the spec: \<^verbatim>\<open>StreamBuffer::Unmap\<close>, missing with the class. It commits
  exactly the bytes written, from the base offset of the mapping, and advances the write
  cursor by that many bytes.
\<close>

definition StreamBuffer_Unmap :: "StreamBuffer \<Rightarrow> nat \<Rightarrow> StreamBuffer" where
  "StreamBuffer_Unmap sb actualBytesWritten =
     sb\<lparr>m_iterator := m_iterator sb + actualBytesWritten\<rparr>"

subsection \<open>Index generator\<close>

text \<open>
  Modelled from the spec: the class \<^verbatim>\<open>IndexGenerator\<close> (IndexGenerator.h is not among
  the sources). It records into storage supplied by the caller and counts the indices
  emitted and the vertices referenced; this file reads both counts as \<^verbatim>\<open>u32\<close>.
\<close>

record IndexGenerator =
  BASEIptr :: nat
  index_len :: u32
  num_verts :: u32

text \<open>
  Modelled from the spec: \<^verbatim>\<open>IndexGenerator::Start\<close>, missing with the class. It begins
  recording into the storage it is given and resets both counts.
\<close>

definition IndexGenerator_Start :: "nat \<Rightarrow> IndexGenerator" where
  "IndexGenerator_Start Indexptr = \<lparr>BASEIptr = Indexptr, index_len = 0, num_verts = 0\<rparr>"

text \<open>
  Modelled from the spec: \<^verbatim>\<open>IndexGenerator::GetIndexLen\<close>, missing with the class: the
  number of indices emitted so far.
\<close>

definition GetIndexLen :: "IndexGenerator \<Rightarrow> u32" where
  "GetIndexLen ig = index_len ig"

text \<open>
  Modelled from the spec: \<^verbatim>\<open>IndexGenerator::GetNumVerts\<close>, missing with the class: the
  number of vertices referenced so far.
\<close>

definition GetNumVerts :: "IndexGenerator \<Rightarrow> u32" where
  "GetNumVerts ig = num_verts ig"

subsection \<open>State of the vertex manager\<close>

text \<open>
  \<^verbatim>\<open>MAXVBUFFERSIZE\<close> and \<^verbatim>\<open>MAXIBUFFERSIZE\<close> (the batch capacities, declared in
  VertexManagerBase.h, which is not among the sources) are parameters. The capacities of the
  two stream buffers are the constants of this file.
\<close>

record limits =
  MAXVBUFFERSIZE :: nat
  MAXIBUFFERSIZE :: nat

definition MAX_IBUFFER_SIZE :: nat where
  "MAX_IBUFFER_SIZE = 2 * 1024 * 1024"

definition MAX_VBUFFER_SIZE :: nat where
  "MAX_VBUFFER_SIZE = 32 * 1024 * 1024"

record GLVertexFormat =
  vertex_stride :: u32
  VAO :: u32
  m_components :: u32

record vm_state =
  s_vertexBuffer :: StreamBuffer
  s_indexBuffer :: StreamBuffer
  s_baseVertex :: nat
  s_index_offset :: nat
  s_pCurBufferPointer :: nat
  s_pBaseBufferPointer :: nat
  s_pEndBufferPointer :: nat
  index_generator :: IndexGenerator
  current_primitive_type :: PrimitiveType
  g_nativeVertexFmt :: "GLVertexFormat option"
  m_last_vao :: u32
  bSupportsPrimitiveRestart :: bool
  bSupportsDualSourceBlend :: bool
  bSupportsGLBaseVertex :: bool
  blendenable :: bool
  subtract :: bool
  debug_build :: bool
  log_saveshaders :: bool
  log_savetargets :: bool
  active_iSaveTargetId :: int
  iSaveTargetId :: int
  bytesVertexStreamed :: nat
  bytesIndexStreamed :: nat
  numIndexedDrawCalls :: nat
  calls :: "call list"

definition emit :: "call \<Rightarrow> vm_state \<Rightarrow> vm_state" where
  "emit c st = st\<lparr>calls := calls st @ [c]\<rparr>"

text \<open>The cast \<^verbatim>\<open>(GLint)s_baseVertex\<close>: the low 32 bits, read as two's complement.\<close>

definition GLint_cast :: "nat \<Rightarrow> int" where
  "GLint_cast n = sint (word_of_nat n :: 32 word)"

subsection \<open>The functions of the file\<close>

text \<open>
  \<^verbatim>\<open>PrepareDrawBuffers\<close>: both sizes are \<^verbatim>\<open>u32\<close> products;
  \<^verbatim>\<open>sizeof(u16)\<close> is 2. \<^verbatim>\<open>ADDSTAT\<close> adds to a per-frame counter.
\<close>

definition PrepareDrawBuffers :: "u32 \<Rightarrow> vm_state \<Rightarrow> vm_state" where
  "PrepareDrawBuffers stride st =
     (let vertex_data_size = GetNumVerts (index_generator st) * stride;
          index_data_size = GetIndexLen (index_generator st) * 2;
          st1 = emit (Unmap_call VertexStream vertex_data_size)
                  (st\<lparr>s_vertexBuffer :=
                        StreamBuffer_Unmap (s_vertexBuffer st) (unat vertex_data_size)\<rparr>);
          st2 = emit (Unmap_call IndexStream index_data_size)
                  (st1\<lparr>s_indexBuffer :=
                         StreamBuffer_Unmap (s_indexBuffer st1) (unat index_data_size)\<rparr>)
      in st2\<lparr>bytesVertexStreamed := bytesVertexStreamed st2 + unat vertex_data_size,
             bytesIndexStreamed := bytesIndexStreamed st2 + unat index_data_size\<rparr>)"

text \<open>
  \<^verbatim>\<open>ResetBuffer\<close>: a failed \<^verbatim>\<open>Map\<close> is fatal, and the division by a zero
  stride traps. The second \<^verbatim>\<open>Map\<close> is called without a stride, so nothing is aligned.
\<close>

definition ResetBuffer :: "limits \<Rightarrow> u32 \<Rightarrow> vm_state \<Rightarrow> failure + vm_state" where
  "ResetBuffer lim stride st =
     (case StreamBuffer_Map (s_vertexBuffer st) (MAXVBUFFERSIZE lim) (unat stride) of
        Inl e \<Rightarrow> Inl e
      | Inr (vb, vfirst, vsecond) \<Rightarrow>
          if stride = 0 then Inl DivisionByZero
          else
            (case StreamBuffer_Map (s_indexBuffer st) (MAXIBUFFERSIZE lim * 2) 0 of
               Inl e \<Rightarrow> Inl e
             | Inr (ib, ifirst, isecond) \<Rightarrow>
                 Inr (st\<lparr>s_vertexBuffer := vb,
                         s_pCurBufferPointer := vfirst,
                         s_pBaseBufferPointer := vfirst,
                         s_pEndBufferPointer := vfirst + MAXVBUFFERSIZE lim,
                         s_baseVertex := vsecond div unat stride,
                         s_indexBuffer := ib,
                         index_generator := IndexGenerator_Start ifirst,
                         s_index_offset := isecond,
                         calls := calls st @
                           [Map_call VertexStream (MAXVBUFFERSIZE lim) (unat stride),
                            Map_call IndexStream (MAXIBUFFERSIZE lim * 2) 0,
                            Start_call ifirst]\<rparr>)))"

text \<open>
  \<^verbatim>\<open>Draw\<close>: the primitive type has the three enumerators the \<^verbatim>\<open>switch\<close> names, so
  the mode is always assigned. \<^verbatim>\<open>INCSTAT\<close> increments a per-frame counter. The stride
  argument is not read.
\<close>

definition Draw :: "u32 \<Rightarrow> vm_state \<Rightarrow> vm_state" where
  "Draw stride st =
     (let index_size = GetIndexLen (index_generator st);
          max_index = GetNumVerts (index_generator st);
          primitive_mode =
            (case current_primitive_type st of
               PRIMITIVE_POINTS \<Rightarrow> GL_POINTS
             | PRIMITIVE_LINES \<Rightarrow> GL_LINES
             | PRIMITIVE_TRIANGLES \<Rightarrow>
                 if bSupportsPrimitiveRestart st then GL_TRIANGLE_STRIP else GL_TRIANGLES);
          st1 = (if bSupportsGLBaseVertex st
                 then emit (glDrawRangeElementsBaseVertex primitive_mode 0 max_index index_size
                              GL_UNSIGNED_SHORT (s_index_offset st) (GLint_cast (s_baseVertex st))) st
                 else emit (glDrawRangeElements primitive_mode 0 max_index index_size
                              GL_UNSIGNED_SHORT (s_index_offset st)) st)
      in st1\<lparr>numIndexedDrawCalls := numIndexedDrawCalls st1 + 1\<rparr>)"

text \<open>
  \<^verbatim>\<open>vFlush\<close>, block by block in program order. The error-report macros change
  nothing here and are left out.

  The vertex array object is bound again only when it differs from the last one bound.
\<close>

definition bind_vertex_array :: "GLVertexFormat \<Rightarrow> vm_state \<Rightarrow> vm_state" where
  "bind_vertex_array nativeVertexFmt st =
     (if m_last_vao st \<noteq> VAO nativeVertexFmt
      then (emit (glBindVertexArray (VAO nativeVertexFmt)) st)\<lparr>m_last_vao := VAO nativeVertexFmt\<rparr>
      else st)"

text \<open>The shader for the first pass (the block under the comment \<^verbatim>\<open>finally bind\<close>).\<close>

definition bind_shader :: "bool \<Rightarrow> bool \<Rightarrow> GLVertexFormat \<Rightarrow> vm_state \<Rightarrow> vm_state" where
  "bind_shader dualSourcePossible useDstAlpha nativeVertexFmt st =
     (if dualSourcePossible
      then (if useDstAlpha
            then emit (SetShader DSTALPHA_DUAL_SOURCE_BLEND (m_components nativeVertexFmt)) st
            else emit (SetShader DSTALPHA_NONE (m_components nativeVertexFmt)) st)
      else emit (SetShader DSTALPHA_NONE (m_components nativeVertexFmt)) st)"

definition setup_pointers :: "vm_state \<Rightarrow> vm_state" where
  "setup_pointers st =
     (if g_nativeVertexFmt st \<noteq> None then emit SetupVertexPointers st else st)"

text \<open>
  The second pass (the block under the comment
  \<^verbatim>\<open>run through vertex groups again to set alpha\<close>).
\<close>

definition alpha_pass ::
  "bool \<Rightarrow> bool \<Rightarrow> u32 \<Rightarrow> GLVertexFormat \<Rightarrow> vm_state \<Rightarrow> vm_state" where
  "alpha_pass dualSourcePossible useDstAlpha stride nativeVertexFmt st =
     (if useDstAlpha \<and> \<not> dualSourcePossible
      then
        let a1 = emit (SetShader DSTALPHA_ALPHA_PASS (m_components nativeVertexFmt)) st;
            a2 = emit (glColorMask False False False True) a1;
            a3 = emit (glDisable GL_BLEND) a2;
            a4 = Draw stride a3;
            a5 = emit Renderer_SetColorMask a4
        in (if blendenable a5 \<or> subtract a5 then emit (glEnable GL_BLEND) a5 else a5)
      else st)"

text \<open>
  The dump of the shader sources and of the render target, compiled in debug builds only
  (\<open>debug_build\<close>) and switched by two bits of \<^verbatim>\<open>g_ActiveConfig.iLog\<close>; both name
  their files after \<^verbatim>\<open>g_ActiveConfig.iSaveTargetId\<close>.
\<close>

definition save_debug_dumps :: "vm_state \<Rightarrow> vm_state" where
  "save_debug_dumps st =
     (let d1 = (if debug_build st \<and> log_saveshaders st
                then emit (SaveShaderSources (active_iSaveTargetId st)) st else st)
      in (if debug_build d1 \<and> log_savetargets d1
          then emit (SaveScreenshot (active_iSaveTargetId d1)) d1 else d1))"

text \<open>
  The vertex format pointer is dereferenced on entry, so a null pointer is a failure.
  \<^verbatim>\<open>g_Config.iSaveTargetId\<close> is incremented at the end.
\<close>

definition vFlush :: "bool \<Rightarrow> vm_state \<Rightarrow> failure + vm_state" where
  "vFlush useDstAlpha st =
     (case g_nativeVertexFmt st of
        None \<Rightarrow> Inl NullVertexFormat
      | Some nativeVertexFmt \<Rightarrow>
          let stride = vertex_stride nativeVertexFmt;
              st1 = bind_vertex_array nativeVertexFmt st;
              st2 = PrepareDrawBuffers stride st1;
              dualSourcePossible = bSupportsDualSourceBlend st2;
              st3 = bind_shader dualSourcePossible useDstAlpha nativeVertexFmt st2;
              st4 = emit UploadConstants st3;
              st5 = setup_pointers st4;
              st6 = Draw stride st5;
              st7 = alpha_pass dualSourcePossible useDstAlpha stride nativeVertexFmt st6;
              st8 = save_debug_dumps st7;
              st9 = st8\<lparr>iSaveTargetId := iSaveTargetId st8 + 1\<rparr>
          in Inr (emit ClearEFBCache st9))"

subsection \<open>Observing a run\<close>

text \<open>The calls a function has added to the trace of the state it started from.\<close>

definition new_calls :: "vm_state \<Rightarrow> vm_state \<Rightarrow> call list" where
  "new_calls st st' = drop (length (calls st)) (calls st')"

text \<open>The draw call \<open>Draw\<close> issues in a state, and the unmaps of \<open>PrepareDrawBuffers\<close>.\<close>

definition issued_draw :: "vm_state \<Rightarrow> call list" where
  "issued_draw st = new_calls st (Draw 0 st)"

definition issued_unmaps :: "u32 \<Rightarrow> vm_state \<Rightarrow> call list" where
  "issued_unmaps stride st = new_calls st (PrepareDrawBuffers stride st)"

fun is_draw :: "call \<Rightarrow> bool" where
  "is_draw (glDrawRangeElementsBaseVertex m s e n t off bv) = True"
| "is_draw (glDrawRangeElements m s e n t off) = True"
| "is_draw _ = False"



fun bound_shader :: "call \<Rightarrow> DSTALPHA_MODE option" where
  "bound_shader (SetShader m c) = Some m"
| "bound_shader _ = None"

fun shaders_bound :: "call list \<Rightarrow> DSTALPHA_MODE list" where
  "shaders_bound [] = []"
| "shaders_bound (c # cs) =
     (case bound_shader c of Some m \<Rightarrow> m # shaders_bound cs | None \<Rightarrow> shaders_bound cs)"

text \<open>The calls one flush adds, when it returns.\<close>

definition vFlush_calls :: "bool \<Rightarrow> vm_state \<Rightarrow> call list option" where
  "vFlush_calls useDstAlpha st =
     (case vFlush useDstAlpha st of Inl e \<Rightarrow> None | Inr st' \<Rightarrow> Some (new_calls st st'))"

definition after_last_draw :: "call list \<Rightarrow> call list" where
  "after_last_draw cs = rev (takeWhile (\<lambda>c. \<not> is_draw c) (rev cs))"

subsection \<open>What the traced OpenGL calls do to the context\<close>

text \<open>
  Of the OpenGL context, the colour write mask and the blend switch. \<^verbatim>\<open>glColorMask\<close>,
  \<^verbatim>\<open>glEnable\<close> and \<^verbatim>\<open>glDisable\<close> act as OpenGL defines them.
  \<^verbatim>\<open>Renderer::SetColorMask\<close> (Render.cpp, not among the sources) installs the mask
  the renderer has configured; that mask is the parameter \<open>rm\<close>. No other traced call
  touches the two.
\<close>

type_synonym mask = "bool \<times> bool \<times> bool \<times> bool"

record gl_state =
  color_mask :: mask
  blend :: bool

fun gl_step :: "mask \<Rightarrow> call \<Rightarrow> gl_state \<Rightarrow> gl_state" where
  "gl_step rm (glColorMask r g b a) gl = gl\<lparr>color_mask := (r, g, b, a)\<rparr>"
| "gl_step rm (glDisable GL_BLEND) gl = gl\<lparr>blend := False\<rparr>"
| "gl_step rm (glEnable GL_BLEND) gl = gl\<lparr>blend := True\<rparr>"
| "gl_step rm Renderer_SetColorMask gl = gl\<lparr>color_mask := rm\<rparr>"
| "gl_step rm c gl = gl"

fun gl_run :: "mask \<Rightarrow> gl_state \<Rightarrow> call list \<Rightarrow> gl_state" where
  "gl_run rm gl [] = gl"
| "gl_run rm gl (c # cs) = gl_run rm (gl_step rm c gl) cs"

text \<open>The context in force at each draw call of a trace, in order.\<close>

fun draw_contexts :: "mask \<Rightarrow> gl_state \<Rightarrow> call list \<Rightarrow> gl_state list" where
  "draw_contexts rm gl [] = []"
| "draw_contexts rm gl (c # cs) =
     (if is_draw c then [gl] else []) @ draw_contexts rm (gl_step rm c gl) cs"

subsection \<open>Concrete states\<close>

definition example_limits :: limits where
  "example_limits = \<lparr>MAXVBUFFERSIZE = 131071, MAXIBUFFERSIZE = 65535\<rparr>"

definition example_format :: GLVertexFormat where
  "example_format = \<lparr>vertex_stride = 32, VAO = 1, m_components = 0\<rparr>"

text \<open>
  A state right after start-up: empty buffers of the capacities of this file, no base-vertex
  offset yet, triangles as the primitive, every capability off except base-vertex support.
\<close>

definition initial_state :: vm_state where
  "initial_state =
     \<lparr>s_vertexBuffer = StreamBuffer_Create 4096 MAX_VBUFFER_SIZE,
      s_indexBuffer = StreamBuffer_Create 8192 MAX_IBUFFER_SIZE,
      s_baseVertex = 0, s_index_offset = 0,
      s_pCurBufferPointer = 0, s_pBaseBufferPointer = 0, s_pEndBufferPointer = 0,
      index_generator = IndexGenerator_Start 0,
      current_primitive_type = PRIMITIVE_TRIANGLES,
      g_nativeVertexFmt = Some example_format,
      m_last_vao = 0,
      bSupportsPrimitiveRestart = False,
      bSupportsDualSourceBlend = False,
      bSupportsGLBaseVertex = True,
      blendenable = False, subtract = False,
      debug_build = False, log_saveshaders = False, log_savetargets = False,
      active_iSaveTargetId = 0, iSaveTargetId = 0,
      bytesVertexStreamed = 0, bytesIndexStreamed = 0, numIndexedDrawCalls = 0,
      calls = []\<rparr>"

text \<open>
  The first batch after start-up, holding one triangle (three vertices, three indices), and
  the state once that batch has been committed with a stride of 32 bytes.
\<close>

definition triangle_batch :: vm_state where
  "triangle_batch =
     initial_state\<lparr>index_generator := \<lparr>BASEIptr = 8192, index_len = 3, num_verts = 3\<rparr>\<rparr>"

definition second_batch :: vm_state where
  "second_batch = PrepareDrawBuffers 32 triangle_batch"

text \<open>The first batch, with blending switched on by the emulated blend mode.\<close>

definition blending_batch :: vm_state where
  "blending_batch = triangle_batch\<lparr>blendenable := True\<rparr>"

definition dual_source_state :: vm_state where
  "dual_source_state = triangle_batch\<lparr>bSupportsDualSourceBlend := True\<rparr>"

definition entry_context :: gl_state where
  "entry_context = \<lparr>color_mask = (True, True, True, True), blend = True\<rparr>"

definition configured_mask :: mask where
  "configured_mask = (True, True, True, False)"

section \<open>Basic facts\<close>

lemma new_calls_emit: "new_calls st (emit c st) = [c]"
  by (simp add: new_calls_def emit_def)

lemma new_calls_Draw:
  "new_calls st (Draw stride st) =
     [if bSupportsGLBaseVertex st
      then glDrawRangeElementsBaseVertex
             (case current_primitive_type st of
                PRIMITIVE_POINTS \<Rightarrow> GL_POINTS
              | PRIMITIVE_LINES \<Rightarrow> GL_LINES
              | PRIMITIVE_TRIANGLES \<Rightarrow>
                  if bSupportsPrimitiveRestart st then GL_TRIANGLE_STRIP else GL_TRIANGLES)
             0 (GetNumVerts (index_generator st)) (GetIndexLen (index_generator st))
             GL_UNSIGNED_SHORT (s_index_offset st) (GLint_cast (s_baseVertex st))
      else glDrawRangeElements
             (case current_primitive_type st of
                PRIMITIVE_POINTS \<Rightarrow> GL_POINTS
              | PRIMITIVE_LINES \<Rightarrow> GL_LINES
              | PRIMITIVE_TRIANGLES \<Rightarrow>
                  if bSupportsPrimitiveRestart st then GL_TRIANGLE_STRIP else GL_TRIANGLES)
             0 (GetNumVerts (index_generator st)) (GetIndexLen (index_generator st))
             GL_UNSIGNED_SHORT (s_index_offset st)]"
  by (simp add: new_calls_def Draw_def emit_def Let_def)

lemma u32_mult_exact:
  "unat (a::u32) * unat (b::u32) < 2 ^ 32 \<Longrightarrow> unat (a * b) = unat a * unat b"
  by (simp add: unat_word_ariths)

lemma issued_draw_frame:
  "issued_draw (calls_update f st) = issued_draw st"
  "issued_draw (m_last_vao_update g st) = issued_draw st"
  "issued_draw (s_vertexBuffer_update h st) = issued_draw st"
  "issued_draw (s_indexBuffer_update h st) = issued_draw st"
  "issued_draw (bytesVertexStreamed_update k st) = issued_draw st"
  "issued_draw (bytesIndexStreamed_update k st) = issued_draw st"
  "issued_draw (numIndexedDrawCalls_update k st) = issued_draw st"
  "issued_draw (iSaveTargetId_update j st) = issued_draw st"
  by (simp_all add: issued_draw_def new_calls_Draw)

lemma Draw_upd:
  "Draw stride st =
     st\<lparr>calls := calls st @ issued_draw st, numIndexedDrawCalls := numIndexedDrawCalls st + 1\<rparr>"
  by (simp add: issued_draw_def new_calls_Draw) (simp add: Draw_def emit_def Let_def)

lemma PrepareDrawBuffers_upd:
  "PrepareDrawBuffers stride st =
     st\<lparr>s_vertexBuffer := StreamBuffer_Unmap (s_vertexBuffer st)
                              (unat (GetNumVerts (index_generator st) * stride)),
        s_indexBuffer := StreamBuffer_Unmap (s_indexBuffer st)
                              (unat (GetIndexLen (index_generator st) * 2)),
        calls := calls st @ issued_unmaps stride st,
        bytesVertexStreamed := bytesVertexStreamed st
                                 + unat (GetNumVerts (index_generator st) * stride),
        bytesIndexStreamed := bytesIndexStreamed st
                                 + unat (GetIndexLen (index_generator st) * 2)\<rparr>"
  by (simp add: issued_unmaps_def new_calls_def PrepareDrawBuffers_def emit_def Let_def)

lemma issued_unmaps_frame:
  "issued_unmaps stride (calls_update f st) = issued_unmaps stride st"
  "issued_unmaps stride (m_last_vao_update g st) = issued_unmaps stride st"
  by (simp_all add: issued_unmaps_def new_calls_def PrepareDrawBuffers_def emit_def Let_def)


lemma bind_vertex_array_upd:
  "bind_vertex_array fmt st =
     st\<lparr>m_last_vao := VAO fmt,
        calls := calls st @ (if m_last_vao st \<noteq> VAO fmt then [glBindVertexArray (VAO fmt)] else [])\<rparr>"
  by (simp add: bind_vertex_array_def emit_def)

lemma bind_shader_upd:
  "bind_shader dual u fmt st =
     st\<lparr>calls := calls st @
          [SetShader (if dual \<and> u then DSTALPHA_DUAL_SOURCE_BLEND else DSTALPHA_NONE)
             (m_components fmt)]\<rparr>"
  by (simp add: bind_shader_def emit_def)

lemma setup_pointers_upd:
  "setup_pointers st =
     st\<lparr>calls := calls st @ (if g_nativeVertexFmt st \<noteq> None then [SetupVertexPointers] else [])\<rparr>"
  by (simp add: setup_pointers_def emit_def)

lemma alpha_pass_upd:
  "alpha_pass dual u stride fmt st =
     st\<lparr>calls := calls st @
          (if u \<and> \<not> dual
           then [SetShader DSTALPHA_ALPHA_PASS (m_components fmt),
                 glColorMask False False False True, glDisable GL_BLEND]
                @ issued_draw st
                @ [Renderer_SetColorMask]
                @ (if blendenable st \<or> subtract st then [glEnable GL_BLEND] else [])
           else []),
        numIndexedDrawCalls := numIndexedDrawCalls st + (if u \<and> \<not> dual then 1 else 0)\<rparr>"
  by (simp add: alpha_pass_def Draw_upd emit_def Let_def issued_draw_frame)

lemma save_debug_dumps_upd:
  "save_debug_dumps st =
     st\<lparr>calls := calls st
          @ (if debug_build st \<and> log_saveshaders st
             then [SaveShaderSources (active_iSaveTargetId st)] else [])
          @ (if debug_build st \<and> log_savetargets st
             then [SaveScreenshot (active_iSaveTargetId st)] else [])\<rparr>"
  by (simp add: save_debug_dumps_def emit_def Let_def)


lemma vFlush_calls_eq:
  assumes "g_nativeVertexFmt st = Some fmt"
  shows "vFlush_calls useDstAlpha st = Some
     ((if m_last_vao st \<noteq> VAO fmt then [glBindVertexArray (VAO fmt)] else [])
      @ issued_unmaps (vertex_stride fmt) st
      @ [SetShader (if bSupportsDualSourceBlend st \<and> useDstAlpha
                    then DSTALPHA_DUAL_SOURCE_BLEND else DSTALPHA_NONE) (m_components fmt),
         UploadConstants, SetupVertexPointers]
      @ issued_draw st
      @ (if useDstAlpha \<and> \<not> bSupportsDualSourceBlend st
         then [SetShader DSTALPHA_ALPHA_PASS (m_components fmt),
               glColorMask False False False True, glDisable GL_BLEND]
              @ issued_draw st
              @ [Renderer_SetColorMask]
              @ (if blendenable st \<or> subtract st then [glEnable GL_BLEND] else [])
         else [])
      @ (if debug_build st \<and> log_saveshaders st
         then [SaveShaderSources (active_iSaveTargetId st)] else [])
      @ (if debug_build st \<and> log_savetargets st
         then [SaveScreenshot (active_iSaveTargetId st)] else [])
      @ [ClearEFBCache])"
  using assms
  by (simp add: vFlush_calls_def vFlush_def new_calls_def Let_def
        bind_vertex_array_upd PrepareDrawBuffers_upd bind_shader_upd setup_pointers_upd
        Draw_upd alpha_pass_upd save_debug_dumps_upd emit_def
        issued_draw_frame issued_unmaps_frame split del: if_split cong del: if_weak_cong)

lemma triangle_batch_facts:
  "GetNumVerts (index_generator triangle_batch) = 3"
  "GetIndexLen (index_generator triangle_batch) = 3"
  "m_iterator (s_vertexBuffer triangle_batch) = 0"
  "m_iterator (s_indexBuffer triangle_batch) = 0"
  by (simp_all add: triangle_batch_def initial_state_def GetNumVerts_def GetIndexLen_def
        StreamBuffer_Create_def)

lemma second_batch_buffers:
  "s_vertexBuffer second_batch = \<lparr>m_size = MAX_VBUFFER_SIZE, m_iterator = 96, m_pointer = 4096\<rparr>"
  "s_indexBuffer second_batch = \<lparr>m_size = MAX_IBUFFER_SIZE, m_iterator = 6, m_pointer = 8192\<rparr>"
  by (simp_all add: second_batch_def PrepareDrawBuffers_def emit_def Let_def
        StreamBuffer_Unmap_def triangle_batch_def initial_state_def StreamBuffer_Create_def
        GetNumVerts_def GetIndexLen_def)

lemma second_batch_maps:
  "StreamBuffer_Map (s_vertexBuffer second_batch) (MAXVBUFFERSIZE example_limits)
     (unat (32::u32))
     = Inr (\<lparr>m_size = MAX_VBUFFER_SIZE, m_iterator = 96, m_pointer = 4096\<rparr>, 4192, 96)"
  "StreamBuffer_Map (s_indexBuffer second_batch) (MAXIBUFFERSIZE example_limits * 2) 0
     = Inr (\<lparr>m_size = MAX_IBUFFER_SIZE, m_iterator = 6, m_pointer = 8192\<rparr>, 8198, 6)"
  by (simp_all add: second_batch_buffers StreamBuffer_Map_def Align_def example_limits_def
        MAX_VBUFFER_SIZE_def MAX_IBUFFER_SIZE_def Let_def)

lemma gl_run_append: "gl_run rm gl (xs @ ys) = gl_run rm (gl_run rm gl xs) ys"
  by (induction xs arbitrary: gl) simp_all

lemma draw_contexts_append:
  "draw_contexts rm gl (xs @ ys) =
     draw_contexts rm gl xs @ draw_contexts rm (gl_run rm gl xs) ys"
  by (induction xs arbitrary: gl) simp_all

lemma shaders_bound_append: "shaders_bound (xs @ ys) = shaders_bound xs @ shaders_bound ys"
  by (induction xs) (simp_all split: option.splits)

lemma is_draw_gl_step: "is_draw c \<Longrightarrow> gl_step rm c gl = gl"
  by (cases c) simp_all

lemma is_draw_bound_shader: "is_draw c \<Longrightarrow> bound_shader c = None"
  by (cases c) simp_all

lemma issued_draw_single: "\<exists>d. issued_draw st = [d] \<and> is_draw d"
  by (simp add: issued_draw_def new_calls_Draw)

lemma issued_unmaps_eq:
  "issued_unmaps stride st =
     [Unmap_call VertexStream (GetNumVerts (index_generator st) * stride),
      Unmap_call IndexStream (GetIndexLen (index_generator st) * 2)]"
  by (simp add: issued_unmaps_def new_calls_def PrepareDrawBuffers_def emit_def Let_def)

lemma issued_draw_obs:
  "filter is_draw (issued_draw st) = issued_draw st"
  "length (issued_draw st) = 1"
  "gl_run rm gl (issued_draw st) = gl"
  "draw_contexts rm gl (issued_draw st) = [gl]"
  "shaders_bound (issued_draw st) = []"
  "\<not> is_draw c \<Longrightarrow> count_list (issued_draw st) c = 0"
  using issued_draw_single [of st]
  by (auto simp add: is_draw_gl_step is_draw_bound_shader)

lemma after_last_draw_tail:
  "is_draw d \<Longrightarrow> \<forall>c\<in>set ys. \<not> is_draw c \<Longrightarrow> after_last_draw (xs @ d # ys) = ys"
proof -
  assume d: "is_draw d" and ys: "\<forall>c\<in>set ys. \<not> is_draw c"
  have "takeWhile (\<lambda>c. \<not> is_draw c) (rev ys @ d # rev xs) =
          rev ys @ takeWhile (\<lambda>c. \<not> is_draw c) (d # rev xs)"
    by (rule takeWhile_append2) (use ys in simp)
  with d show ?thesis
    by (simp add: after_last_draw_def)
qed


lemma vFlush_draw_count:
  assumes "g_nativeVertexFmt st = Some fmt"
  shows "\<exists>st'. vFlush useDstAlpha st = Inr st'
           \<and> numIndexedDrawCalls st' =
               numIndexedDrawCalls st
                 + (if useDstAlpha \<and> \<not> bSupportsDualSourceBlend st then 2 else 1)"
  using assms
  by (simp add: vFlush_def Let_def
        bind_vertex_array_upd PrepareDrawBuffers_upd bind_shader_upd setup_pointers_upd
        Draw_upd alpha_pass_upd save_debug_dumps_upd emit_def
        cong del: if_weak_cong)

lemma vFlush_trace:
  assumes "g_nativeVertexFmt st = Some fmt"
  obtains st' where "vFlush useDstAlpha st = Inr st'"
    and "new_calls st st' = the (vFlush_calls useDstAlpha st)"
    and "numIndexedDrawCalls st' =
           numIndexedDrawCalls st
             + (if useDstAlpha \<and> \<not> bSupportsDualSourceBlend st then 2 else 1)"
proof -
  from vFlush_draw_count [OF assms, of useDstAlpha] obtain st'
    where s: "vFlush useDstAlpha st = Inr st'"
      "numIndexedDrawCalls st' =
         numIndexedDrawCalls st
           + (if useDstAlpha \<and> \<not> bSupportsDualSourceBlend st then 2 else 1)"
    by blast
  from s(1) have "new_calls st st' = the (vFlush_calls useDstAlpha st)"
    by (simp add: vFlush_calls_def)
  from that [OF s(1) this s(2)] show thesis .
qed

lemma entry_facts:
  "g_nativeVertexFmt triangle_batch = Some example_format"
  "\<not> bSupportsDualSourceBlend triangle_batch"
  "\<not> blendenable triangle_batch" "\<not> subtract triangle_batch"
  "g_nativeVertexFmt blending_batch = Some example_format"
  "\<not> bSupportsDualSourceBlend blending_batch"
  "blendenable blending_batch"
  "g_nativeVertexFmt dual_source_state = Some example_format"
  "bSupportsDualSourceBlend dual_source_state"
  by (simp_all add: triangle_batch_def blending_batch_def dual_source_state_def
        initial_state_def)

section \<open>Properties of \<open>Draw\<close>\<close>

text \<open>
  C10. For any two strides and the same surrounding state, \<open>Draw\<close> issues the identical
  draw call and leaves the identical state: its behaviour does not depend on the stride
  argument.
\<close>

theorem Draw_stride_irrelevant:
  "Draw s1 st = Draw s2 st \<and> new_calls st (Draw s1 st) = new_calls st (Draw s2 st)"
  by (simp add: Draw_def)


section \<open>Properties of \<open>PrepareDrawBuffers\<close> and \<open>ResetBuffer\<close>\<close>

text \<open>
  C3. For every stride and every state of the index generator, \<open>PrepareDrawBuffers\<close>
  calls unmap exactly twice: on the vertex buffer with \<open>GetNumVerts \<times> stride\<close> bytes and on
  the index buffer with \<open>GetIndexLen \<times> 2\<close> bytes, both products taken in \<^verbatim>\<open>u32\<close> as the
  code computes them. The sizes do not depend on the buffers or on what their mappings
  reserved. Whenever the product fits 32 bits, each buffer's cursor advances by exactly the
  product of the numbers.
\<close>

theorem PrepareDrawBuffers_unmap_sizes:
  "new_calls st (PrepareDrawBuffers stride st) =
     [Unmap_call VertexStream (GetNumVerts (index_generator st) * stride),
      Unmap_call IndexStream (GetIndexLen (index_generator st) * 2)]
   \<and> new_calls (st\<lparr>s_vertexBuffer := vb, s_indexBuffer := ib\<rparr>)
        (PrepareDrawBuffers stride (st\<lparr>s_vertexBuffer := vb, s_indexBuffer := ib\<rparr>)) =
      new_calls st (PrepareDrawBuffers stride st)
   \<and> (unat (GetNumVerts (index_generator st)) * unat stride < 2 ^ 32 \<longrightarrow>
        m_iterator (s_vertexBuffer (PrepareDrawBuffers stride st)) =
          m_iterator (s_vertexBuffer st) + unat (GetNumVerts (index_generator st)) * unat stride)
   \<and> (unat (GetIndexLen (index_generator st)) * 2 < 2 ^ 32 \<longrightarrow>
        m_iterator (s_indexBuffer (PrepareDrawBuffers stride st)) =
          m_iterator (s_indexBuffer st) + unat (GetIndexLen (index_generator st)) * 2)"
  using u32_mult_exact [of "GetNumVerts (index_generator st)" stride]
        u32_mult_exact [of "GetIndexLen (index_generator st)" 2]
  by (simp add: new_calls_def PrepareDrawBuffers_def emit_def Let_def StreamBuffer_Unmap_def)

theorem PrepareDrawBuffers_unmap_sizes_witness:
  "new_calls triangle_batch (PrepareDrawBuffers 32 triangle_batch) =
     [Unmap_call VertexStream 96, Unmap_call IndexStream 6]
   \<and> m_iterator (s_vertexBuffer (PrepareDrawBuffers 32 triangle_batch)) = 96
   \<and> m_iterator (s_indexBuffer (PrepareDrawBuffers 32 triangle_batch)) = 6"
  using PrepareDrawBuffers_unmap_sizes [of triangle_batch 32]
  by (simp add: triangle_batch_facts)

text \<open>
  C7. For every stride, when no vertex and no index has been emitted since the index
  generator was started, \<open>PrepareDrawBuffers\<close> commits zero bytes to each stream buffer and
  leaves each buffer, and so its write cursor, unchanged.
\<close>

theorem PrepareDrawBuffers_nothing_emitted:
  assumes "GetNumVerts (index_generator st) = 0" and "GetIndexLen (index_generator st) = 0"
  shows "new_calls st (PrepareDrawBuffers stride st) =
           [Unmap_call VertexStream 0, Unmap_call IndexStream 0]
         \<and> s_vertexBuffer (PrepareDrawBuffers stride st) = s_vertexBuffer st
         \<and> s_indexBuffer (PrepareDrawBuffers stride st) = s_indexBuffer st
         \<and> m_iterator (s_vertexBuffer (PrepareDrawBuffers stride st))
             = m_iterator (s_vertexBuffer st)
         \<and> m_iterator (s_indexBuffer (PrepareDrawBuffers stride st))
             = m_iterator (s_indexBuffer st)"
  using assms
  by (simp add: new_calls_def PrepareDrawBuffers_def emit_def Let_def StreamBuffer_Unmap_def)

theorem PrepareDrawBuffers_nothing_emitted_witness:
  "GetNumVerts (index_generator initial_state) = 0
   \<and> GetIndexLen (index_generator initial_state) = 0
   \<and> new_calls initial_state (PrepareDrawBuffers 32 initial_state) =
        [Unmap_call VertexStream 0, Unmap_call IndexStream 0]
   \<and> m_iterator (s_vertexBuffer (PrepareDrawBuffers 32 initial_state)) = 0
   \<and> m_iterator (s_indexBuffer (PrepareDrawBuffers 32 initial_state)) = 0"
proof -
  have a: "GetNumVerts (index_generator initial_state) = 0"
    and b: "GetIndexLen (index_generator initial_state) = 0"
    by (simp_all add: initial_state_def IndexGenerator_Start_def GetNumVerts_def GetIndexLen_def)
  have c: "m_iterator (s_vertexBuffer initial_state) = 0"
    "m_iterator (s_indexBuffer initial_state) = 0"
    by (simp_all add: initial_state_def StreamBuffer_Create_def)
  show ?thesis
    using PrepareDrawBuffers_nothing_emitted [OF a b, of 32] a b c by simp
qed

text \<open>
  C6. For every positive stride, \<open>ResetBuffer\<close> maps the vertex buffer for
  \<open>MAXVBUFFERSIZE\<close> bytes, aligned to the stride, and the index buffer for
  \<open>MAXIBUFFERSIZE\<close> 16-bit indices. When both mappings succeed it returns, having recorded
  as base vertex the vertex mapping's byte offset divided by the stride, as index offset the
  index mapping's byte offset, and having started the index generator on the index
  mapping's pointer.
\<close>

theorem ResetBuffer_records_mappings:
  assumes "stride \<noteq> 0"
    and "StreamBuffer_Map (s_vertexBuffer st) (MAXVBUFFERSIZE lim) (unat stride)
           = Inr (vb, vfirst, vsecond)"
    and "StreamBuffer_Map (s_indexBuffer st) (MAXIBUFFERSIZE lim * 2) 0
           = Inr (ib, ifirst, isecond)"
  shows "\<exists>st'. ResetBuffer lim stride st = Inr st'
           \<and> new_calls st st' =
               [Map_call VertexStream (MAXVBUFFERSIZE lim) (unat stride),
                Map_call IndexStream (MAXIBUFFERSIZE lim * 2) 0,
                Start_call ifirst]
           \<and> s_vertexBuffer st' = vb \<and> s_indexBuffer st' = ib
           \<and> s_baseVertex st' = vsecond div unat stride
           \<and> s_index_offset st' = isecond
           \<and> index_generator st' = IndexGenerator_Start ifirst"
  using assms
  by (simp add: ResetBuffer_def new_calls_def)

theorem ResetBuffer_records_mappings_witness:
  "(32::u32) \<noteq> 0 \<and>
   (\<exists>st'. ResetBuffer example_limits 32 second_batch = Inr st'
      \<and> new_calls second_batch st' =
          [Map_call VertexStream 131071 32, Map_call IndexStream 131070 0, Start_call 8198]
      \<and> s_baseVertex st' = 3 \<and> s_index_offset st' = 6
      \<and> index_generator st' = IndexGenerator_Start 8198)"
  using ResetBuffer_records_mappings [OF _ second_batch_maps]
  by (auto simp add: example_limits_def)

section \<open>Properties of \<open>vFlush\<close>\<close>

text \<open>
  C1. When \<open>useDstAlpha\<close> is set and dual-source blending is unavailable, \<open>vFlush\<close>
  returns having invoked \<open>Draw\<close> exactly twice. The first draw runs in the context found
  on entry; the colour channels are masked off and blending is disabled (each once, by
  \<open>vFlush\<close> itself) for the second draw only. Blending is enabled again afterwards exactly
  when the blend mode has blend-enable or subtract set.
\<close>

theorem vFlush_dual_pass:
  assumes "g_nativeVertexFmt st = Some fmt" and "\<not> bSupportsDualSourceBlend st"
  shows "\<exists>st' cs. vFlush True st = Inr st' \<and> new_calls st st' = cs
           \<and> numIndexedDrawCalls st' = numIndexedDrawCalls st + 2
           \<and> length (filter is_draw cs) = 2
           \<and> draw_contexts rm gl cs =
               [gl, gl\<lparr>color_mask := (False, False, False, True), blend := False\<rparr>]
           \<and> count_list cs (glColorMask False False False True) = 1
           \<and> count_list cs (glDisable GL_BLEND) = 1
           \<and> count_list cs (glEnable GL_BLEND) = (if blendenable st \<or> subtract st then 1 else 0)
           \<and> blend (gl_run rm gl cs) = (blendenable st \<or> subtract st)"
proof -
  from assms(1) obtain st' where s: "vFlush True st = Inr st'"
    "new_calls st st' = the (vFlush_calls True st)"
    "numIndexedDrawCalls st' =
       numIndexedDrawCalls st + (if True \<and> \<not> bSupportsDualSourceBlend st then 2 else 1)"
    by (rule vFlush_trace)
  with assms show ?thesis
    by (simp add: vFlush_calls_eq issued_unmaps_eq issued_draw_obs gl_run_append
          draw_contexts_append)
qed

theorem vFlush_dual_pass_witness:
  "g_nativeVertexFmt blending_batch = Some example_format
   \<and> \<not> bSupportsDualSourceBlend blending_batch
   \<and> (\<exists>st' cs. vFlush True blending_batch = Inr st' \<and> new_calls blending_batch st' = cs
           \<and> numIndexedDrawCalls st' = numIndexedDrawCalls blending_batch + 2
           \<and> length (filter is_draw cs) = 2
           \<and> draw_contexts configured_mask entry_context cs =
               [\<lparr>color_mask = (True, True, True, True), blend = True\<rparr>,
                \<lparr>color_mask = (False, False, False, True), blend = False\<rparr>]
           \<and> count_list cs (glColorMask False False False True) = 1
           \<and> count_list cs (glDisable GL_BLEND) = 1
           \<and> count_list cs (glEnable GL_BLEND) = 1
           \<and> blend (gl_run configured_mask entry_context cs))"
  using vFlush_dual_pass [of blending_batch example_format configured_mask entry_context]
  by (simp add: entry_facts entry_context_def)

text \<open>
  C8. Every \<open>vFlush\<close> that returns uploads the per-frame shader constants exactly once,
  whether it draws once or twice.
\<close>

theorem vFlush_uploads_constants_once:
  assumes "g_nativeVertexFmt st = Some fmt"
  shows "\<exists>st' cs. vFlush useDstAlpha st = Inr st' \<and> new_calls st st' = cs
           \<and> count_list cs UploadConstants = 1"
proof -
  from assms obtain st' where s: "vFlush useDstAlpha st = Inr st'"
    "new_calls st st' = the (vFlush_calls useDstAlpha st)"
    by (rule vFlush_trace)
  with assms show ?thesis
    by (simp add: vFlush_calls_eq issued_unmaps_eq issued_draw_obs)
qed

theorem vFlush_uploads_constants_once_witness:
  "g_nativeVertexFmt triangle_batch = Some example_format
   \<and> (\<exists>st' cs. vFlush True triangle_batch = Inr st' \<and> new_calls triangle_batch st' = cs
         \<and> count_list cs UploadConstants = 1)
   \<and> (\<exists>st' cs. vFlush False triangle_batch = Inr st' \<and> new_calls triangle_batch st' = cs
         \<and> count_list cs UploadConstants = 1)"
  using vFlush_uploads_constants_once [of triangle_batch example_format True]
        vFlush_uploads_constants_once [of triangle_batch example_format False]
  by (simp add: entry_facts)

text \<open>
  C2, as stated: with dual-source blending available, the shader bound is the one for the
  non-alpha pass when \<open>useDstAlpha\<close> is true and the one for the combined pass when it is
  false. The code binds them the other way round.
\<close>

theorem vFlush_single_pass_counterexample:
  "bSupportsDualSourceBlend dual_source_state
   \<and> map_option shaders_bound (vFlush_calls True dual_source_state) \<noteq> Some [DSTALPHA_NONE]
   \<and> map_option shaders_bound (vFlush_calls False dual_source_state)
       \<noteq> Some [DSTALPHA_DUAL_SOURCE_BLEND]"
  by (simp add: vFlush_calls_eq [OF entry_facts(8)] entry_facts issued_unmaps_eq issued_draw_obs
        shaders_bound_append)

text \<open>
  C2, amended. With dual-source blending available \<open>vFlush\<close> invokes \<open>Draw\<close> exactly
  once and binds a single shader: \<open>DSTALPHA_DUAL_SOURCE_BLEND\<close> (regular and destination
  alpha in one pass) when \<open>useDstAlpha\<close> is true, \<open>DSTALPHA_NONE\<close> when it is false.
\<close>

theorem vFlush_single_pass:
  assumes "g_nativeVertexFmt st = Some fmt" and "bSupportsDualSourceBlend st"
  shows "\<exists>st' cs. vFlush useDstAlpha st = Inr st' \<and> new_calls st st' = cs
           \<and> numIndexedDrawCalls st' = numIndexedDrawCalls st + 1
           \<and> length (filter is_draw cs) = 1
           \<and> shaders_bound cs =
               [if useDstAlpha then DSTALPHA_DUAL_SOURCE_BLEND else DSTALPHA_NONE]"
proof -
  from assms(1) obtain st' where s: "vFlush useDstAlpha st = Inr st'"
    "new_calls st st' = the (vFlush_calls useDstAlpha st)"
    "numIndexedDrawCalls st' =
       numIndexedDrawCalls st
         + (if useDstAlpha \<and> \<not> bSupportsDualSourceBlend st then 2 else 1)"
    by (rule vFlush_trace)
  with assms show ?thesis
    by (simp add: vFlush_calls_eq issued_unmaps_eq issued_draw_obs shaders_bound_append)
qed

theorem vFlush_single_pass_witness:
  "g_nativeVertexFmt dual_source_state = Some example_format
   \<and> bSupportsDualSourceBlend dual_source_state
   \<and> (\<exists>st' cs. vFlush True dual_source_state = Inr st' \<and> new_calls dual_source_state st' = cs
           \<and> numIndexedDrawCalls st' = numIndexedDrawCalls dual_source_state + 1
           \<and> length (filter is_draw cs) = 1
           \<and> shaders_bound cs = [DSTALPHA_DUAL_SOURCE_BLEND])
   \<and> (\<exists>st' cs. vFlush False dual_source_state = Inr st' \<and> new_calls dual_source_state st' = cs
           \<and> numIndexedDrawCalls st' = numIndexedDrawCalls dual_source_state + 1
           \<and> length (filter is_draw cs) = 1
           \<and> shaders_bound cs = [DSTALPHA_NONE])"
  using vFlush_single_pass [of dual_source_state example_format True]
        vFlush_single_pass [of dual_source_state example_format False]
  by (simp add: entry_facts)

text \<open>
  C9. On the two-pass path the first call after the second draw is
  \<open>Renderer::SetColorMask\<close>, unconditionally, and the flush ends with the renderer's
  configured mask in force whatever the mask was on entry. On the one-pass path the mask is
  never touched. So no flush ends with the alpha-only mask of its second pass still active.
\<close>

theorem vFlush_restores_color_mask:
  assumes "g_nativeVertexFmt st = Some fmt"
  shows "\<exists>st' cs. vFlush useDstAlpha st = Inr st' \<and> new_calls st st' = cs
           \<and> color_mask (gl_run rm gl cs) =
               (if useDstAlpha \<and> \<not> bSupportsDualSourceBlend st then rm else color_mask gl)
           \<and> (useDstAlpha \<and> \<not> bSupportsDualSourceBlend st \<longrightarrow>
                 take 1 (after_last_draw cs) = [Renderer_SetColorMask])"
proof -
  obtain d where d: "issued_draw st = [d]" "is_draw d"
    using issued_draw_single by blast
  from assms obtain st' where s: "vFlush useDstAlpha st = Inr st'"
    "new_calls st st' = the (vFlush_calls useDstAlpha st)"
    by (rule vFlush_trace)
  have "color_mask (gl_run rm gl (new_calls st st')) =
               (if useDstAlpha \<and> \<not> bSupportsDualSourceBlend st then rm else color_mask gl)
           \<and> (useDstAlpha \<and> \<not> bSupportsDualSourceBlend st \<longrightarrow>
                 take 1 (after_last_draw (new_calls st st')) = [Renderer_SetColorMask])"
  proof (cases "useDstAlpha \<and> \<not> bSupportsDualSourceBlend st")
    case True
    define xs where "xs =
      (if m_last_vao st \<noteq> VAO fmt then [glBindVertexArray (VAO fmt)] else [])
      @ issued_unmaps (vertex_stride fmt) st
      @ [SetShader DSTALPHA_NONE (m_components fmt), UploadConstants, SetupVertexPointers, d,
         SetShader DSTALPHA_ALPHA_PASS (m_components fmt),
         glColorMask False False False True, glDisable GL_BLEND]"
    define ys where "ys =
      Renderer_SetColorMask
      # (if blendenable st \<or> subtract st then [glEnable GL_BLEND] else [])
      @ (if debug_build st \<and> log_saveshaders st
         then [SaveShaderSources (active_iSaveTargetId st)] else [])
      @ (if debug_build st \<and> log_savetargets st
         then [SaveScreenshot (active_iSaveTargetId st)] else [])
      @ [ClearEFBCache]"
    have cs: "new_calls st st' = xs @ d # ys"
      using assms True d s(2) by (simp add: vFlush_calls_eq xs_def ys_def)
    have "\<forall>c\<in>set ys. \<not> is_draw c"
      by (auto simp add: ys_def)
    then have tail: "after_last_draw (xs @ d # ys) = ys"
      using d(2) by (simp add: after_last_draw_tail)
    have "color_mask (gl_run rm gl (xs @ d # ys)) = rm"
      using d(2) by (simp add: xs_def ys_def gl_run_append issued_unmaps_eq is_draw_gl_step)
    with cs tail True show ?thesis
      by (simp add: ys_def)
  next
    case False
    then consider "\<not> useDstAlpha" | "bSupportsDualSourceBlend st"
      by blast
    then show ?thesis
    proof cases
      case 1
      with assms d s(2) show ?thesis
        by (simp add: vFlush_calls_eq issued_unmaps_eq gl_run_append is_draw_gl_step)
    next
      case 2
      with assms d s(2) show ?thesis
        by (simp add: vFlush_calls_eq issued_unmaps_eq gl_run_append is_draw_gl_step)
    qed
  qed
  with s(1) show ?thesis
    by simp
qed

theorem vFlush_restores_color_mask_witness:
  "g_nativeVertexFmt triangle_batch = Some example_format
   \<and> (\<exists>st' cs. vFlush True triangle_batch = Inr st' \<and> new_calls triangle_batch st' = cs
           \<and> color_mask (gl_run configured_mask
                 \<lparr>color_mask = (False, False, False, True), blend = False\<rparr> cs)
               = (True, True, True, False)
           \<and> take 1 (after_last_draw cs) = [Renderer_SetColorMask])"
  using vFlush_restores_color_mask [of triangle_batch example_format True configured_mask
          "\<lparr>color_mask = (False, False, False, True), blend = False\<rparr>"]
  by (simp add: entry_facts configured_mask_def)

end
